theory Spec2Isabelle
  imports Main
begin

section \<open>Python values, exceptions and handler outcomes\<close>

text \<open>
  A Python \<open>str\<close> is a sequence of Unicode code points: \<open>len\<close>, indexing, slicing and
  \<open>split\<close> count code points, not bytes. A string is therefore a list of code points
  (natural numbers); \<open>u\<close> embeds an ASCII literal.
\<close>

type_synonym pystr = "nat list"

definition u :: "string \<Rightarrow> pystr" where
  "u s = map of_char s"

definition at_sign :: nat where
  "at_sign = 64"

definition star :: nat where
  "star = 42"

text \<open>
  The values a stored document can hold under a key: \<open>None\<close>, a string, an integer, or the
  timestamp the store assigns (seconds since the epoch).
\<close>

datatype pyval = PNone | PStr pystr | PInt int | PDatetime nat

text \<open>A document is a Python \<open>dict\<close> from keys to values.\<close>

type_synonym doc = "pystr \<rightharpoonup> pyval"

text \<open>A filter is a dict literal; \<open>{}\<close> is the empty list of key/value pairs.\<close>

type_synonym filter_dict = "(pystr \<times> pyval) list"

text \<open>
  Exceptions are instances of Python's class \<open>Exception\<close> (what \<open>except Exception\<close>
  catches), each carrying its message; \<open>str_exn\<close> is \<open>str(e)\<close>.
\<close>

datatype pyexn = IndexError pystr | TypeError pystr | Exception pystr

fun str_exn :: "pyexn \<Rightarrow> pystr" where
  "str_exn (IndexError m) = m"
| "str_exn (TypeError m) = m"
| "str_exn (Exception m) = m"

text \<open>
  What running a route handler yields: a returned value (serialised with HTTP 200), a
  raised \<open>HTTPException(status_code, detail)\<close>, or any other exception leaving the
  handler (which the framework answers with HTTP 500).
\<close>

datatype 'a outcome = Return 'a | RaiseHTTP nat pystr | Raise pyexn

fun http_status :: "'a outcome \<Rightarrow> nat" where
  "http_status (Return v) = 200"
| "http_status (RaiseHTTP code detail) = code"
| "http_status (Raise e) = 500"

text \<open>
  \<open>try: body  except Exception as e: raise HTTPException(status_code=500, detail=str(e))\<close>
\<close>

definition except_to_500 :: "pyexn + 'a \<Rightarrow> 'a outcome" where
  "except_to_500 body =
     (case body of Inr v \<Rightarrow> Return v | Inl e \<Rightarrow> RaiseHTTP 500 (str_exn e))"

section \<open>Email masking (\<open>mask\<close> inside \<open>get_recent_waitlist\<close>)\<close>

text \<open>Truthiness of a value, as \<open>not email\<close> tests it.\<close>

fun truthy :: "pyval \<Rightarrow> bool" where
  "truthy PNone = False"
| "truthy (PStr s) = (s \<noteq> [])"
| "truthy (PInt i) = (i \<noteq> 0)"
| "truthy (PDatetime t) = True"

text \<open>\<open>"@" in email\<close>: substring test on a string, \<open>TypeError\<close> on a value that is no container.\<close>

fun contains_at :: "pyval \<Rightarrow> pyexn + bool" where
  "contains_at (PStr s) = Inr (at_sign \<in> set s)"
| "contains_at PNone = Inl (TypeError (u ''argument of type 'NoneType' is not iterable''))"
| "contains_at (PInt i) = Inl (TypeError (u ''argument of type 'int' is not iterable''))"
| "contains_at (PDatetime t) =
     Inl (TypeError (u ''argument of type 'datetime.datetime' is not iterable''))"

text \<open>\<open>email.split("@", 1)\<close> on a string that contains \<open>"@"\<close>: cut at the first one.\<close>

definition split_at1 :: "pystr \<Rightarrow> pystr \<times> pystr" where
  "split_at1 s = (takeWhile (\<lambda>c. c \<noteq> at_sign) s, tl (dropWhile (\<lambda>c. c \<noteq> at_sign) s))"

text \<open>\<open>name[0]\<close> and \<open>name[-1]\<close>: \<open>IndexError\<close> on the empty string.\<close>

definition index_first :: "pystr \<Rightarrow> pyexn + nat" where
  "index_first s =
     (case s of [] \<Rightarrow> Inl (IndexError (u ''string index out of range'')) | c # _ \<Rightarrow> Inr c)"

definition index_last :: "pystr \<Rightarrow> pyexn + nat" where
  "index_last s =
     (if s = [] then Inl (IndexError (u ''string index out of range'')) else Inr (last s))"

definition mask_local :: "pystr \<Rightarrow> pyexn + pystr" where
  "mask_local name =
     (if length name \<le> 2 then
        (case index_first name of Inl e \<Rightarrow> Inl e | Inr c \<Rightarrow> Inr ([c] @ [star]))
      else
        (case index_first name of Inl e \<Rightarrow> Inl e | Inr c \<Rightarrow>
           (case index_last name of Inl e \<Rightarrow> Inl e | Inr d \<Rightarrow>
              Inr ([c] @ replicate (length name - 2) star @ [d]))))"

definition mask_email :: "pyval \<Rightarrow> pyexn + pystr" where
  "mask_email email =
     (if \<not> truthy email then Inr (u ''hidden'')
      else case contains_at email of
        Inl e \<Rightarrow> Inl e
      | Inr has_at \<Rightarrow>
          if \<not> has_at then Inr (u ''hidden'')
          else (case split_at1 (case email of PStr s \<Rightarrow> s | _ \<Rightarrow> []) of
                  (name, domain) \<Rightarrow>
                    (case mask_local name of
                       Inl e \<Rightarrow> Inl e
                     | Inr masked \<Rightarrow> Inr (masked @ [at_sign] @ domain))))"

section \<open>\<open>GET /waitlist/recent\<close>\<close>

text \<open>One element of the response's \<open>items\<close>.\<close>

record item =
  item_email :: pystr
  item_name :: pyval
  item_created_at :: pyval

text \<open>\<open>doc.get(key)\<close> and \<open>doc.get(key, default)\<close>.\<close>

definition dict_get :: "doc \<Rightarrow> pystr \<Rightarrow> pyval" where
  "dict_get d k = (case d k of None \<Rightarrow> PNone | Some v \<Rightarrow> v)"

definition dict_get_default :: "doc \<Rightarrow> pystr \<Rightarrow> pyval \<Rightarrow> pyval" where
  "dict_get_default d k dflt = (case d k of None \<Rightarrow> dflt | Some v \<Rightarrow> v)"

text \<open>The dict built for one document in the list comprehension.\<close>

definition sanitize_doc :: "doc \<Rightarrow> pyexn + item" where
  "sanitize_doc d =
     (case mask_email (dict_get d (u ''email'')) of
        Inl e \<Rightarrow> Inl e
      | Inr m \<Rightarrow>
          Inr \<lparr>item_email = m,
               item_name = dict_get_default d (u ''name'') (PStr (u ''Friend'')),
               item_created_at = dict_get d (u ''created_at'')\<rparr>)"

text \<open>The comprehension over \<open>docs\<close>, left to right; the first exception ends it.\<close>

fun sanitized :: "doc list \<Rightarrow> pyexn + item list" where
  "sanitized [] = Inr []"
| "sanitized (d # ds) =
     (case sanitize_doc d of
        Inl e \<Rightarrow> Inl e
      | Inr i \<Rightarrow> (case sanitized ds of Inl e \<Rightarrow> Inl e | Inr rest \<Rightarrow> Inr (i # rest)))"

text \<open>
  The adapter function \<open>get_documents(collection_name, filter_dict, limit)\<close> is imported
  from module \<open>database\<close>; the handler takes it as a parameter.
\<close>

type_synonym get_documents_fn = "pystr \<Rightarrow> filter_dict \<Rightarrow> int \<Rightarrow> pyexn + doc list"

definition get_recent_waitlist_body :: "get_documents_fn \<Rightarrow> int \<Rightarrow> pyexn + item list" where
  "get_recent_waitlist_body get_documents limit =
     (case get_documents (u ''waitlist'') [] limit of
        Inl e \<Rightarrow> Inl e
      | Inr docs \<Rightarrow> sanitized docs)"

text \<open>The returned list is the value of the response's key \<open>items\<close>.\<close>

definition get_recent_waitlist :: "get_documents_fn \<Rightarrow> int \<Rightarrow> item list outcome" where
  "get_recent_waitlist get_documents limit =
     except_to_500 (get_recent_waitlist_body get_documents limit)"




section \<open>\<open>POST /waitlist\<close>\<close>

text \<open>The validated request body: \<open>email\<close> required, \<open>name\<close> optional.\<close>

record waitlist_create =
  wl_email :: pystr
  wl_name :: "pystr option"

record create_response =
  resp_id :: pystr
  resp_message :: pystr

text \<open>\<open>create_document(collection_name, data)\<close> of module \<open>database\<close>, a parameter as well.\<close>

type_synonym create_document_fn = "pystr \<Rightarrow> waitlist_create \<Rightarrow> pyexn + pystr"

definition create_waitlist_entry_body ::
  "create_document_fn \<Rightarrow> waitlist_create \<Rightarrow> pyexn + create_response" where
  "create_waitlist_entry_body create_document payload =
     (case create_document (u ''waitlist'') payload of
        Inl e \<Rightarrow> Inl e
      | Inr new_id \<Rightarrow>
          Inr \<lparr>resp_id = new_id, resp_message = u ''Thanks for joining the waitlist!''\<rparr>)"

definition create_waitlist_entry ::
  "create_document_fn \<Rightarrow> waitlist_create \<Rightarrow> create_response outcome" where
  "create_waitlist_entry create_document payload =
     except_to_500 (create_waitlist_entry_body create_document payload)"

section \<open>The store handle \<open>db\<close>\<close>

text \<open>
  \<open>db\<close> is \<open>None\<close> or a database object, seen through what the handlers ask of it:
  reading the attribute \<open>name\<close> (absent, present, or raising something other than
  \<open>AttributeError\<close>, which \<open>hasattr\<close> lets through), \<open>list_collection_names()\<close>, and
  \<open>db[collection].count_documents(filter)\<close> converted by \<open>int\<close>.
\<close>

record db_handle =
  name_attr :: "pyexn + pystr option"
  list_collection_names :: "pyexn + pystr list"
  count_documents :: "pystr \<Rightarrow> filter_dict \<Rightarrow> pyexn + int"

section \<open>\<open>GET /waitlist/count\<close>\<close>

definition get_waitlist_count_body :: "db_handle option \<Rightarrow> pyexn + int" where
  "get_waitlist_count_body db =
     (case db of
        None \<Rightarrow> Inl (Exception (u ''Database not available''))
      | Some h \<Rightarrow> count_documents h (u ''waitlist'') [])"

text \<open>The returned integer is the value of the response's key \<open>count\<close>.\<close>

definition get_waitlist_count :: "db_handle option \<Rightarrow> int outcome" where
  "get_waitlist_count db = except_to_500 (get_waitlist_count_body db)"

section \<open>\<open>GET /test\<close>\<close>

text \<open>The indicator glyphs of the status strings, as code points.\<close>

definition check_mark :: pystr where
  "check_mark = [0x2705]"

definition cross_mark :: pystr where
  "cross_mark = [0x274C]"

definition warning_sign :: pystr where
  "warning_sign = [0x26A0, 0xFE0F]"

text \<open>The dict \<open>response\<close>; the two keys that start as \<open>None\<close> are optional strings.\<close>

record status =
  backend :: pystr
  database :: pystr
  database_url :: "pystr option"
  database_name :: "pystr option"
  connection_status :: pystr
  collections :: "pystr list"

definition initial_response :: status where
  "initial_response =
     \<lparr>backend = check_mark @ u '' Running'',
      database = cross_mark @ u '' Not Available'',
      database_url = None,
      database_name = None,
      connection_status = u ''Not Connected'',
      collections = []\<rparr>"

text \<open>
  A block of statements acts on the dict in place: it ends normally or with an exception,
  and either way leaves the dict as it was at that moment.
\<close>

type_synonym block = "status \<Rightarrow> pyexn option \<times> status"

text \<open>The inner \<open>try\<close>/\<open>except\<close> around \<open>db.list_collection_names()\<close>.\<close>

definition list_collections_block :: "db_handle \<Rightarrow> block" where
  "list_collections_block h r =
     (case list_collection_names h of
        Inr cs \<Rightarrow>
          (None, r\<lparr>collections := take 10 cs,
                   database := check_mark @ u '' Connected & Working''\<rparr>)
      | Inl e \<Rightarrow>
          (None, r\<lparr>database :=
                     warning_sign @ u ''  Connected but Error: '' @ take 50 (str_exn e)\<rparr>))"

text \<open>The body of the outer \<open>try\<close>.\<close>

definition outer_try_block :: "db_handle option \<Rightarrow> block" where
  "outer_try_block db r =
     (case db of
        Some h \<Rightarrow>
          (let r1 = r\<lparr>database := check_mark @ u '' Available'',
                      database_url := Some (check_mark @ u '' Configured'')\<rparr>
           in case name_attr h of
                Inl e \<Rightarrow> (Some e, r1)
              | Inr a \<Rightarrow>
                  list_collections_block h
                    (r1\<lparr>database_name :=
                          Some (case a of Some n \<Rightarrow> n | None \<Rightarrow> check_mark @ u '' Connected''),
                        connection_status := u ''Connected''\<rparr>))
      | None \<Rightarrow>
          (None, r\<lparr>database := warning_sign @ u ''  Available but not initialized''\<rparr>))"

text \<open>The outer \<open>try\<close>/\<open>except\<close>.\<close>

definition database_check_block :: "db_handle option \<Rightarrow> block" where
  "database_check_block db r =
     (case outer_try_block db r of
        (None, r') \<Rightarrow> (None, r')
      | (Some e, r') \<Rightarrow>
          (None, r'\<lparr>database := cross_mark @ u '' Error: '' @ take 50 (str_exn e)\<rparr>))"

text \<open>
  \<open>os.getenv(key)\<close> gives \<open>None\<close> or a string; the conditional expression tests its
  truthiness.
\<close>

definition env_indicator :: "(pystr \<Rightarrow> pystr option) \<Rightarrow> pystr \<Rightarrow> pystr" where
  "env_indicator getenv key =
     (case getenv key of
        None \<Rightarrow> cross_mark @ u '' Not Set''
      | Some v \<Rightarrow> if v \<noteq> [] then check_mark @ u '' Set'' else cross_mark @ u '' Not Set'')"

definition environment_block :: "(pystr \<Rightarrow> pystr option) \<Rightarrow> block" where
  "environment_block getenv r =
     (None, r\<lparr>database_url := Some (env_indicator getenv (u ''DATABASE_URL'')),
              database_name := Some (env_indicator getenv (u ''DATABASE_NAME''))\<rparr>)"

text \<open>The handler: the two blocks in sequence, then \<open>return response\<close>.\<close>

definition test_database :: "db_handle option \<Rightarrow> (pystr \<Rightarrow> pystr option) \<Rightarrow> status outcome" where
  "test_database db getenv =
     (case database_check_block db initial_response of
        (Some e, r) \<Rightarrow> Raise e
      | (None, r) \<Rightarrow>
          (case environment_block getenv r of
             (Some e, r') \<Rightarrow> Raise e
           | (None, r') \<Rightarrow> Return r'))"

section \<open>Facts about the masking and the comprehension\<close>

lemma split_at1_first:
  "at_sign \<notin> set name \<Longrightarrow> split_at1 (name @ at_sign # domain) = (name, domain)"
  by (induction name) (auto simp: split_at1_def)

lemma mask_long:
  assumes "at_sign \<notin> set name" and "2 < length name"
  shows "mask_email (PStr (name @ at_sign # domain)) =
           Inr ([hd name] @ replicate (length name - 2) star @ [last name] @ [at_sign] @ domain)"
proof -
  from assms(2) obtain c cs where n: "name = c # cs" by (cases name) auto
  have "mask_local name = Inr ([hd name] @ replicate (length name - 2) star @ [last name])"
    using assms(2) n by (simp add: mask_local_def index_first_def index_last_def)
  then show ?thesis
    using assms(1) by (simp add: mask_email_def split_at1_first)
qed

lemma mask_short:
  assumes "at_sign \<notin> set name" and "name \<noteq> []" and "length name \<le> 2"
  shows "mask_email (PStr (name @ at_sign # domain)) = Inr ([hd name, star] @ [at_sign] @ domain)"
proof -
  from assms(2) obtain c cs where n: "name = c # cs" by (cases name) auto
  have "mask_local name = Inr [hd name, star]"
    using assms(3) n by (simp add: mask_local_def index_first_def)
  then show ?thesis
    using assms(1) by (simp add: mask_email_def split_at1_first)
qed

lemma mask_empty_local:
  "mask_email (PStr (at_sign # domain)) = Inl (IndexError (u ''string index out of range''))"
  by (simp add: mask_email_def split_at1_def mask_local_def index_first_def)

lemma mask_hidden:
  "mask_email PNone = Inr (u ''hidden'')"
  "mask_email (PStr []) = Inr (u ''hidden'')"
  "at_sign \<notin> set s \<Longrightarrow> mask_email (PStr s) = Inr (u ''hidden'')"
  by (simp_all add: mask_email_def)

lemma sanitized_nth:
  "sanitized docs = Inr items \<Longrightarrow>
     length items = length docs \<and> (\<forall>i < length docs. sanitize_doc (docs ! i) = Inr (items ! i))"
proof (induction docs arbitrary: items)
  case Nil
  then show ?case by simp
next
  case (Cons d ds)
  then obtain i its where i: "sanitize_doc d = Inr i" and r: "sanitized ds = Inr its"
    and it: "items = i # its"
    by (auto split: sum.splits)
  from Cons.IH[OF r] show ?case using i it by (auto simp: nth_Cons')
qed

lemma sanitized_total:
  "(\<forall>d \<in> set docs. \<exists>i. sanitize_doc d = Inr i) \<Longrightarrow> \<exists>items. sanitized docs = Inr items"
  by (induction docs) auto

lemma sanitized_fails:
  "d \<in> set docs \<Longrightarrow> sanitize_doc d = Inl e \<Longrightarrow> \<exists>e'. sanitized docs = Inl e'"
  by (induction docs) (auto split: sum.splits)

lemma recent_item:
  assumes "get_documents (u ''waitlist'') [] limit = Inr docs"
    and "get_recent_waitlist get_documents limit = Return items"
    and "i < length docs"
  shows "length items = length docs \<and> sanitize_doc (docs ! i) = Inr (items ! i)"
proof -
  from assms(1,2) have "sanitized docs = Inr items"
    by (simp add: get_recent_waitlist_def get_recent_waitlist_body_def except_to_500_def
        split: sum.splits)
  from sanitized_nth[OF this] assms(3) show ?thesis by simp
qed

lemma sanitize_doc_email:
  "sanitize_doc d = Inr it \<Longrightarrow> mask_email (dict_get d (u ''email'')) = Inr (item_email it)"
  by (auto simp: sanitize_doc_def split: sum.splits)

lemma sanitize_doc_fields:
  "sanitize_doc d = Inr it \<Longrightarrow>
     item_name it = (case d (u ''name'') of None \<Rightarrow> PStr (u ''Friend'') | Some v \<Rightarrow> v)
     \<and> item_created_at it = (case d (u ''created_at'') of None \<Rightarrow> PNone | Some v \<Rightarrow> v)"
  by (auto simp: sanitize_doc_def dict_get_def dict_get_default_def split: sum.splits)

lemma recent_short_local_part:
  assumes "get_documents (u ''waitlist'') [] limit = Inr docs"
    and "get_recent_waitlist get_documents limit = Return items"
    and "i < length docs"
    and "(docs ! i) (u ''email'') = Some (PStr (name @ at_sign # domain))"
    and "at_sign \<notin> set name"
    and "name \<noteq> []"
    and "length name \<le> 2"
  shows "item_email (items ! i) = [hd name, star] @ [at_sign] @ domain"
proof -
  from recent_item[OF assms(1-3)] have "sanitize_doc (docs ! i) = Inr (items ! i)" by simp
  from sanitize_doc_email[OF this] assms(4)
  have "mask_email (PStr (name @ at_sign # domain)) = Inr (item_email (items ! i))"
    by (simp add: dict_get_def)
  with mask_short[OF assms(5-7), of domain] show ?thesis by simp
qed

lemma sanitized_all_nth:
  "(\<forall>j < length docs. \<exists>it. sanitize_doc (docs ! j) = Inr it)
     \<Longrightarrow> \<exists>items. sanitized docs = Inr items"
  by (rule sanitized_total) (simp add: all_set_conv_all_nth)

lemmas recent_defs = get_recent_waitlist_def get_recent_waitlist_body_def except_to_500_def
        sanitize_doc_def dict_get_def dict_get_default_def mask_email_def split_at1_def
        mask_local_def index_first_def index_last_def u_def at_sign_def star_def

lemmas test_defs = test_database_def database_check_block_def outer_try_block_def
  list_collections_block_def environment_block_def initial_response_def Let_def

section \<open>Masked emails in the recent listing\<close>

text \<open>
  C1. Take a record whose email is \<open>name @ "@" @ domain\<close> with no \<open>"@"\<close> in \<open>name\<close>
  (so \<open>name\<close> is the text before the first \<open>"@"\<close>) and \<open>len(name) > 2\<close>. The masking
  does not raise on it: it yields the first character of \<open>name\<close>, \<open>len(name) - 2\<close> stars
  and the last character of \<open>name\<close>, then \<open>"@"\<close> and the domain unchanged, and the masked
  local part is as long as \<open>name\<close>. The record is sanitised to an item with that email;
  when it is among the fetched documents and the other documents can be sanitised,
  \<open>GET /waitlist/recent\<close> returns a listing that shows it with that email; and any
  listing returned shows it so.
\<close>

theorem recent_masks_long_local_part:
  assumes "d (u ''email'') = Some (PStr (name @ at_sign # domain))"
    and "at_sign \<notin> set name"
    and "2 < length name"
  shows "mask_email (PStr (name @ at_sign # domain)) =
           Inr (([hd name] @ replicate (length name - 2) star @ [last name]) @ [at_sign] @ domain)
         \<and> length ([hd name] @ replicate (length name - 2) star @ [last name]) = length name
         \<and> (\<exists>it. sanitize_doc d = Inr it \<and> item_email it =
               ([hd name] @ replicate (length name - 2) star @ [last name]) @ [at_sign] @ domain)
         \<and> (get_documents (u ''waitlist'') [] limit = Inr docs \<and> i < length docs \<and> docs ! i = d
              \<and> (\<forall>j < length docs. j \<noteq> i \<longrightarrow> (\<exists>it. sanitize_doc (docs ! j) = Inr it))
            \<longrightarrow> (\<exists>items. get_recent_waitlist get_documents limit = Return items
                   \<and> length items = length docs
                   \<and> item_email (items ! i) =
                       ([hd name] @ replicate (length name - 2) star @ [last name])
                         @ [at_sign] @ domain))
         \<and> (get_documents' (u ''waitlist'') [] limit' = Inr docs' \<and> i' < length docs'
              \<and> docs' ! i' = d \<and> get_recent_waitlist get_documents' limit' = Return items'
            \<longrightarrow> item_email (items' ! i') =
                  ([hd name] @ replicate (length name - 2) star @ [last name])
                    @ [at_sign] @ domain)"
proof -
  let ?masked = "[hd name] @ replicate (length name - 2) star @ [last name]"
  have m: "mask_email (PStr (name @ at_sign # domain)) = Inr (?masked @ [at_sign] @ domain)"
    using mask_long[OF assms(2,3), of domain] by simp
  have len: "length ?masked = length name"
    using assms(3) by simp
  have s: "\<exists>it. sanitize_doc d = Inr it \<and> item_email it = ?masked @ [at_sign] @ domain"
    using m assms(1) by (simp add: sanitize_doc_def dict_get_def)
  have cond: "item_email (items ! k) = ?masked @ [at_sign] @ domain"
    if g: "gd (u ''waitlist'') [] l = Inr ds" and k: "k < length ds" and dk: "ds ! k = d"
      and r: "get_recent_waitlist gd l = Return items"
    for gd :: get_documents_fn and l ds k items
  proof -
    from recent_item[OF g r k] dk have "sanitize_doc d = Inr (items ! k)" by simp
    from sanitize_doc_email[OF this] assms(1) m show ?thesis
      by (simp add: dict_get_def)
  qed
  have tot: "\<exists>items. get_recent_waitlist get_documents limit = Return items
                   \<and> length items = length docs
                   \<and> item_email (items ! i) = ?masked @ [at_sign] @ domain"
    if g: "get_documents (u ''waitlist'') [] limit = Inr docs" and k: "i < length docs"
      and dk: "docs ! i = d"
      and others: "\<forall>j < length docs. j \<noteq> i \<longrightarrow> (\<exists>it. sanitize_doc (docs ! j) = Inr it)"
  proof -
    have "\<forall>j < length docs. \<exists>it. sanitize_doc (docs ! j) = Inr it"
      using others s dk by (metis)
    from sanitized_all_nth[OF this] obtain items where si: "sanitized docs = Inr items" ..
    with g have r: "get_recent_waitlist get_documents limit = Return items"
      by (simp add: get_recent_waitlist_def get_recent_waitlist_body_def except_to_500_def)
    from sanitized_nth[OF si] have "length items = length docs" by simp
    with r cond[OF g k dk r] show ?thesis by blast
  qed
  from m len s tot cond show ?thesis by blast
qed

text \<open>
  The record \<open>{"email": "alice@example.com"}\<close>, fetched after another record, is listed
  as \<open>a***e@example.com\<close>.
\<close>

theorem recent_masks_long_local_part_witness:
  "mask_email (PStr (u ''alice@example.com'')) = Inr (u ''a***e@example.com'')
   \<and> (\<exists>items. get_recent_waitlist
          (\<lambda>c f l. Inr [[u ''email'' \<mapsto> PStr (u ''bo@x.io'')],
                         [u ''email'' \<mapsto> PStr (u ''alice@example.com'')]]) 5 = Return items
        \<and> length items = 2
        \<and> item_email (items ! 1) = u ''a***e@example.com'')"
proof -
  let ?b = "[u ''email'' \<mapsto> PStr (u ''bo@x.io'')] :: doc"
  let ?d = "[u ''email'' \<mapsto> PStr (u ''alice@example.com'')] :: doc"
  let ?docs = "[?b, ?d]"
  let ?gd = "\<lambda>(c::pystr) (f::filter_dict) (l::int). (Inr ?docs :: pyexn + doc list)"
  let ?ib = "\<lparr>item_email = u ''b*@x.io'', item_name = PStr (u ''Friend''),
              item_created_at = PNone\<rparr>"
  let ?it = "\<lparr>item_email = u ''a***e@example.com'', item_name = PStr (u ''Friend''),
              item_created_at = PNone\<rparr>"
  have h1: "?d (u ''email'') = Some (PStr (u ''alice'' @ at_sign # u ''example.com''))"
    by (simp add: u_def at_sign_def)
  have h2: "at_sign \<notin> set (u ''alice'')" by (simp add: u_def at_sign_def)
  have h3: "2 < length (u ''alice'')" by (simp add: u_def)
  have s0: "sanitize_doc ?b = Inr ?ib" by (simp add: recent_defs)
  have h4: "?gd (u ''waitlist'') [] 5 = Inr ?docs \<and> (1::nat) < length ?docs \<and> ?docs ! 1 = ?d
            \<and> (\<forall>j < length ?docs. j \<noteq> 1 \<longrightarrow> (\<exists>it. sanitize_doc (?docs ! j) = Inr it))"
    using s0 by (simp add: less_Suc_eq)
  have r: "get_recent_waitlist ?gd 5 = Return [?ib, ?it]"
    by (simp add: recent_defs)
  have h5: "?gd (u ''waitlist'') [] 5 = Inr ?docs \<and> (1::nat) < length ?docs \<and> ?docs ! 1 = ?d
            \<and> get_recent_waitlist ?gd 5 = Return [?ib, ?it]"
    using r by simp
  have e0: "u ''alice'' @ at_sign # u ''example.com'' = u ''alice@example.com''"
    by (simp add: u_def at_sign_def)
  have e: "([hd (u ''alice'')] @ replicate (length (u ''alice'') - 2) star @ [last (u ''alice'')])
             @ [at_sign] @ u ''example.com'' = u ''a***e@example.com''"
    by (simp add: u_def at_sign_def star_def)
  have l: "length ?docs = 2" by simp
  note T = recent_masks_long_local_part[of ?d "u ''alice''" "u ''example.com''" ?gd 5 ?docs 1
      ?gd 5 ?docs 1 "[?ib, ?it]", OF h1 h2 h3, unfolded e e0 l]
  from T have m: "mask_email (PStr (u ''alice@example.com'')) = Inr (u ''a***e@example.com'')"
    by (rule conjunct1)
  from T h4 have x: "\<exists>items. get_recent_waitlist ?gd 5 = Return items \<and> length items = 2
                   \<and> item_email (items ! 1) = u ''a***e@example.com''"
    unfolding l by blast
  from T h5 have "item_email ([?ib, ?it] ! 1) = u ''a***e@example.com''"
    unfolding l by blast
  with m x show ?thesis by blast
qed

text \<open>
  C2. For a local part of one or two characters the listing shows its first character and
  one star (\<open>recent_short_local_part\<close>). For the empty local part, which the same branch
  \<open>len(name) <= 2\<close> takes, there is no masked local part: \<open>name[0]\<close> raises
  \<open>IndexError\<close>, and a listing that holds the record \<open>{"email": "@x.com"}\<close> is answered
  with HTTP 500.
\<close>

theorem mask_empty_local_part_raises:
  "mask_email (PStr (u ''@x.com'')) = Inl (IndexError (u ''string index out of range''))
   \<and> get_recent_waitlist (\<lambda>c f l. Inr [[u ''email'' \<mapsto> PStr (u ''@x.com'')]]) 5
       = RaiseHTTP 500 (u ''string index out of range'')"
  by (simp add: recent_defs)

text \<open>
  C3. Whenever \<open>GET /waitlist/recent\<close> returns its items, a fetched record whose
  \<open>email\<close> key is missing, or holds \<open>None\<close>, the empty string, or a string without
  \<open>"@"\<close>, is shown with the email \<open>"hidden"\<close>.
\<close>

theorem recent_hides_email_without_at:
  assumes "get_documents (u ''waitlist'') [] limit = Inr docs"
    and "get_recent_waitlist get_documents limit = Return items"
    and "i < length docs"
    and "(docs ! i) (u ''email'') = None \<or> (docs ! i) (u ''email'') = Some PNone
         \<or> (docs ! i) (u ''email'') = Some (PStr [])
         \<or> (\<exists>s. (docs ! i) (u ''email'') = Some (PStr s) \<and> at_sign \<notin> set s)"
  shows "item_email (items ! i) = u ''hidden''"
proof -
  from recent_item[OF assms(1-3)] have "sanitize_doc (docs ! i) = Inr (items ! i)" by simp
  from sanitize_doc_email[OF this]
  have m: "mask_email (dict_get (docs ! i) (u ''email'')) = Inr (item_email (items ! i))" .
  from assms(4) have "mask_email (dict_get (docs ! i) (u ''email'')) = Inr (u ''hidden'')"
    by (auto simp: dict_get_def mask_hidden)
  with m show ?thesis by simp
qed

theorem recent_hides_email_without_at_witness:
  "get_recent_waitlist
     (\<lambda>c f l. Inr [Map.empty, [u ''email'' \<mapsto> PStr []], [u ''email'' \<mapsto> PStr (u ''nobody'')]]) 5
   = Return [\<lparr>item_email = u ''hidden'', item_name = PStr (u ''Friend''), item_created_at = PNone\<rparr>,
             \<lparr>item_email = u ''hidden'', item_name = PStr (u ''Friend''), item_created_at = PNone\<rparr>,
             \<lparr>item_email = u ''hidden'', item_name = PStr (u ''Friend''), item_created_at = PNone\<rparr>]
   \<and> item_email (\<lparr>item_email = u ''hidden'', item_name = PStr (u ''Friend''),
                   item_created_at = PNone\<rparr>) = u ''hidden''"
proof -
  let ?docs = "[Map.empty, [u ''email'' \<mapsto> PStr []], [u ''email'' \<mapsto> PStr (u ''nobody'')]] :: doc list"
  let ?gd = "\<lambda>(c::pystr) (f::filter_dict) (l::int). (Inr ?docs :: pyexn + doc list)"
  let ?it = "\<lparr>item_email = u ''hidden'', item_name = PStr (u ''Friend''), item_created_at = PNone\<rparr>"
  have h1: "?gd (u ''waitlist'') [] 5 = Inr ?docs" by simp
  have h2: "get_recent_waitlist ?gd 5 = Return [?it, ?it, ?it]"
    by (simp add: recent_defs)
  have h3: "(2::nat) < length ?docs" by simp
  have h4: "(?docs ! 2) (u ''email'') = None \<or> (?docs ! 2) (u ''email'') = Some PNone
         \<or> (?docs ! 2) (u ''email'') = Some (PStr [])
         \<or> (\<exists>s. (?docs ! 2) (u ''email'') = Some (PStr s) \<and> at_sign \<notin> set s)"
    by (simp add: u_def at_sign_def)
  from recent_hides_email_without_at[OF h1 h2 h3 h4] h2
  show ?thesis by simp
qed

section \<open>Exceptions become HTTP 500\<close>

text \<open>
  C4. In \<open>POST /waitlist\<close>, \<open>GET /waitlist/count\<close> and \<open>GET /waitlist/recent\<close>, an
  exception thrown by the store adapter (\<open>create_document\<close>, \<open>count_documents\<close>,
  \<open>get_documents\<close>), raised for the unset handle, raised while the fetched documents
  are sanitised, or raised anywhere in the body of the handler's \<open>try\<close>, ends the handler
  with \<open>HTTPException(500)\<close> whose detail is \<open>str\<close> of that exception; none of the three
  handlers ends with any other exception.
\<close>

theorem handlers_convert_exceptions_to_500:
  "(create_document (u ''waitlist'') payload = Inl e1 \<longrightarrow>
      create_waitlist_entry create_document payload = RaiseHTTP 500 (str_exn e1))
   \<and> (get_waitlist_count None = RaiseHTTP 500 (str_exn (Exception (u ''Database not available''))))
   \<and> (count_documents h (u ''waitlist'') [] = Inl e2 \<longrightarrow>
      get_waitlist_count (Some h) = RaiseHTTP 500 (str_exn e2))
   \<and> (get_documents (u ''waitlist'') [] limit = Inl e3 \<longrightarrow>
      get_recent_waitlist get_documents limit = RaiseHTTP 500 (str_exn e3))
   \<and> (get_documents' (u ''waitlist'') [] limit' = Inr docs \<and> sanitized docs = Inl e4 \<longrightarrow>
      get_recent_waitlist get_documents' limit' = RaiseHTTP 500 (str_exn e4))
   \<and> (create_waitlist_entry_body create_document payload = Inl e5 \<longrightarrow>
      create_waitlist_entry create_document payload = RaiseHTTP 500 (str_exn e5))
   \<and> (get_waitlist_count_body db = Inl e6 \<longrightarrow>
      get_waitlist_count db = RaiseHTTP 500 (str_exn e6))
   \<and> (get_recent_waitlist_body get_documents limit = Inl e7 \<longrightarrow>
      get_recent_waitlist get_documents limit = RaiseHTTP 500 (str_exn e7))
   \<and> (\<forall>e. create_waitlist_entry create_document payload \<noteq> Raise e)
   \<and> (\<forall>e. get_waitlist_count db \<noteq> Raise e)
   \<and> (\<forall>e. get_recent_waitlist get_documents limit \<noteq> Raise e)"
  by (auto simp: create_waitlist_entry_def create_waitlist_entry_body_def
      get_waitlist_count_def get_waitlist_count_body_def
      get_recent_waitlist_def get_recent_waitlist_body_def except_to_500_def
      split: sum.splits option.splits)

theorem handlers_convert_exceptions_to_500_witness:
  "create_waitlist_entry (\<lambda>c p. Inl (Exception (u ''insert failed'')))
       \<lparr>wl_email = u ''a@x.com'', wl_name = None\<rparr> = RaiseHTTP 500 (u ''insert failed'')
   \<and> get_waitlist_count
        (Some \<lparr>name_attr = Inr None, list_collection_names = Inr [],
               count_documents = (\<lambda>c f. Inl (Exception (u ''count failed'')))\<rparr>)
       = RaiseHTTP 500 (u ''count failed'')
   \<and> get_recent_waitlist (\<lambda>c f l. Inl (Exception (u ''find failed''))) 5
       = RaiseHTTP 500 (u ''find failed'')
   \<and> get_recent_waitlist (\<lambda>c f l. Inr [[u ''email'' \<mapsto> PStr (u ''@x.com'')]]) 5
       = RaiseHTTP 500 (u ''string index out of range'')"
proof -
  let ?cd = "\<lambda>(c::pystr) (p::waitlist_create). (Inl (Exception (u ''insert failed'')) :: pyexn + pystr)"
  let ?p = "\<lparr>wl_email = u ''a@x.com'', wl_name = None\<rparr>"
  let ?h = "\<lparr>name_attr = Inr None, list_collection_names = Inr [],
               count_documents = (\<lambda>(c::pystr) (f::filter_dict). (Inl (Exception (u ''count failed'')) :: pyexn + int))\<rparr>"
  let ?gd = "\<lambda>(c::pystr) (f::filter_dict) (l::int). (Inl (Exception (u ''find failed'')) :: pyexn + doc list)"
  let ?docs = "[[u ''email'' \<mapsto> PStr (u ''@x.com'')]] :: doc list"
  let ?gd' = "\<lambda>(c::pystr) (f::filter_dict) (l::int). (Inr ?docs :: pyexn + doc list)"
  have h1: "?cd (u ''waitlist'') ?p = Inl (Exception (u ''insert failed''))" by simp
  have h2: "count_documents ?h (u ''waitlist'') [] = Inl (Exception (u ''count failed''))" by simp
  have h3: "?gd (u ''waitlist'') [] 5 = Inl (Exception (u ''find failed''))" by simp
  have h4: "?gd' (u ''waitlist'') [] 5 = Inr ?docs
            \<and> sanitized ?docs = Inl (IndexError (u ''string index out of range''))"
    by (simp add: recent_defs)
  have h5: "create_waitlist_entry_body ?cd ?p = Inl (Exception (u ''insert failed''))"
    by (simp add: create_waitlist_entry_body_def)
  have h6: "get_waitlist_count_body (Some ?h) = Inl (Exception (u ''count failed''))"
    by (simp add: get_waitlist_count_body_def)
  have h7: "get_recent_waitlist_body ?gd 5 = Inl (Exception (u ''find failed''))"
    by (simp add: get_recent_waitlist_body_def)
  from handlers_convert_exceptions_to_500[of ?cd ?p "Exception (u ''insert failed'')"
      ?h "Exception (u ''count failed'')" ?gd 5 "Exception (u ''find failed'')"
      ?gd' 5 ?docs "IndexError (u ''string index out of range'')"
      "Exception (u ''insert failed'')" "Some ?h" "Exception (u ''count failed'')"
      "Exception (u ''find failed'')"]
    h1 h2 h3 h4 h5 h6 h7
  show ?thesis by simp
qed

section \<open>The diagnostic endpoint\<close>

text \<open>
  C5. \<open>GET /test\<close> returns its status object (HTTP 200) for every store handle and
  every environment. When \<open>list_collection_names()\<close> throws, only \<open>database\<close> carries
  the failure, as \<open>"Connected but Error: "\<close> followed by the first 50 characters of the
  exception's text; \<open>backend\<close>, \<open>database_url\<close>, \<open>database_name\<close> and
  \<open>connection_status\<close> are what they are when the listing succeeds, and \<open>collections\<close>
  stays empty. When reading the handle's \<open>name\<close> throws, \<open>database\<close> is \<open>"Error: "\<close>
  with the text cut to 50 characters as well; with no handle it says so.
\<close>

theorem test_database_never_fails:
  "(\<exists>r. test_database db getenv = Return r)
   \<and> http_status (test_database db getenv) = 200
   \<and> (name_attr h = Inr a \<and> list_collection_names h = Inl e \<longrightarrow>
        test_database (Some h) getenv =
          Return \<lparr>backend = check_mark @ u '' Running'',
                  database = warning_sign @ u ''  Connected but Error: '' @ take 50 (str_exn e),
                  database_url = Some (env_indicator getenv (u ''DATABASE_URL'')),
                  database_name = Some (env_indicator getenv (u ''DATABASE_NAME'')),
                  connection_status = u ''Connected'',
                  collections = []\<rparr>
        \<and> length (take 50 (str_exn e)) \<le> 50)
   \<and> (name_attr h' = Inr a' \<and> list_collection_names h' = Inr cs \<longrightarrow>
        test_database (Some h') getenv =
          Return \<lparr>backend = check_mark @ u '' Running'',
                  database = check_mark @ u '' Connected & Working'',
                  database_url = Some (env_indicator getenv (u ''DATABASE_URL'')),
                  database_name = Some (env_indicator getenv (u ''DATABASE_NAME'')),
                  connection_status = u ''Connected'',
                  collections = take 10 cs\<rparr>)
   \<and> (name_attr h'' = Inl e' \<longrightarrow>
        test_database (Some h'') getenv =
          Return \<lparr>backend = check_mark @ u '' Running'',
                  database = cross_mark @ u '' Error: '' @ take 50 (str_exn e'),
                  database_url = Some (env_indicator getenv (u ''DATABASE_URL'')),
                  database_name = Some (env_indicator getenv (u ''DATABASE_NAME'')),
                  connection_status = u ''Not Connected'',
                  collections = []\<rparr>
        \<and> length (take 50 (str_exn e')) \<le> 50)
   \<and> test_database None getenv =
          Return \<lparr>backend = check_mark @ u '' Running'',
                  database = warning_sign @ u ''  Available but not initialized'',
                  database_url = Some (env_indicator getenv (u ''DATABASE_URL'')),
                  database_name = Some (env_indicator getenv (u ''DATABASE_NAME'')),
                  connection_status = u ''Not Connected'',
                  collections = []\<rparr>"
proof -
  have total: "\<exists>r. test_database db getenv = Return r"
    by (simp add: test_defs split: option.splits sum.splits prod.splits)
  then have status: "http_status (test_database db getenv) = 200"
    by auto
  have c1: "test_database (Some h) getenv =
          Return \<lparr>backend = check_mark @ u '' Running'',
                  database = warning_sign @ u ''  Connected but Error: '' @ take 50 (str_exn e),
                  database_url = Some (env_indicator getenv (u ''DATABASE_URL'')),
                  database_name = Some (env_indicator getenv (u ''DATABASE_NAME'')),
                  connection_status = u ''Connected'',
                  collections = []\<rparr>"
    if "name_attr h = Inr a" and "list_collection_names h = Inl e"
    using that by (simp add: test_defs)
  have c2: "test_database (Some h') getenv =
          Return \<lparr>backend = check_mark @ u '' Running'',
                  database = check_mark @ u '' Connected & Working'',
                  database_url = Some (env_indicator getenv (u ''DATABASE_URL'')),
                  database_name = Some (env_indicator getenv (u ''DATABASE_NAME'')),
                  connection_status = u ''Connected'',
                  collections = take 10 cs\<rparr>"
    if "name_attr h' = Inr a'" and "list_collection_names h' = Inr cs"
    using that by (simp add: test_defs)
  have c3: "test_database (Some h'') getenv =
          Return \<lparr>backend = check_mark @ u '' Running'',
                  database = cross_mark @ u '' Error: '' @ take 50 (str_exn e'),
                  database_url = Some (env_indicator getenv (u ''DATABASE_URL'')),
                  database_name = Some (env_indicator getenv (u ''DATABASE_NAME'')),
                  connection_status = u ''Not Connected'',
                  collections = []\<rparr>"
    if "name_attr h'' = Inl e'"
    using that by (simp add: test_defs)
  have c4: "test_database None getenv =
          Return \<lparr>backend = check_mark @ u '' Running'',
                  database = warning_sign @ u ''  Available but not initialized'',
                  database_url = Some (env_indicator getenv (u ''DATABASE_URL'')),
                  database_name = Some (env_indicator getenv (u ''DATABASE_NAME'')),
                  connection_status = u ''Not Connected'',
                  collections = []\<rparr>"
    by (simp add: test_defs)
  from total status c1 c2 c3 c4 show ?thesis by simp
qed

theorem test_database_never_fails_witness:
  "test_database
     (Some \<lparr>name_attr = Inr (Some (u ''appdb'')),
            list_collection_names =
              Inl (Exception (u ''localhost:27017: [Errno 111] Connection refused, Timeout: 30s'')),
            count_documents = (\<lambda>c f. Inr 0)\<rparr>)
     (\<lambda>k. if k = u ''DATABASE_URL'' then Some (u ''mongodb://localhost'') else None)
   = Return \<lparr>backend = check_mark @ u '' Running'',
             database = warning_sign
                @ u ''  Connected but Error: localhost:27017: [Errno 111] Connection refused, T'',
             database_url = Some (check_mark @ u '' Set''),
             database_name = Some (cross_mark @ u '' Not Set''),
             connection_status = u ''Connected'',
             collections = []\<rparr>
   \<and> test_database
     (Some \<lparr>name_attr = Inr None,
            list_collection_names = Inr [u ''waitlist'', u ''users''],
            count_documents = (\<lambda>c f. Inr 0)\<rparr>)
     (\<lambda>k. if k = u ''DATABASE_URL'' then Some (u ''mongodb://localhost'') else None)
   = Return \<lparr>backend = check_mark @ u '' Running'',
             database = check_mark @ u '' Connected & Working'',
             database_url = Some (check_mark @ u '' Set''),
             database_name = Some (cross_mark @ u '' Not Set''),
             connection_status = u ''Connected'',
             collections = [u ''waitlist'', u ''users'']\<rparr>
   \<and> test_database
     (Some \<lparr>name_attr = Inl (Exception (u ''closed'')),
            list_collection_names = Inr [],
            count_documents = (\<lambda>c f. Inr 0)\<rparr>)
     (\<lambda>k. if k = u ''DATABASE_URL'' then Some (u ''mongodb://localhost'') else None)
   = Return \<lparr>backend = check_mark @ u '' Running'',
             database = cross_mark @ u '' Error: closed'',
             database_url = Some (check_mark @ u '' Set''),
             database_name = Some (cross_mark @ u '' Not Set''),
             connection_status = u ''Not Connected'',
             collections = []\<rparr>"
proof -
  let ?e = "Exception (u ''localhost:27017: [Errno 111] Connection refused, Timeout: 30s'')"
  let ?h = "\<lparr>name_attr = Inr (Some (u ''appdb'')),
            list_collection_names = (Inl ?e :: pyexn + pystr list),
            count_documents = (\<lambda>(c::pystr) (f::filter_dict). (Inr 0 :: pyexn + int))\<rparr>"
  let ?h' = "\<lparr>name_attr = (Inr None :: pyexn + pystr option),
            list_collection_names = (Inr [u ''waitlist'', u ''users''] :: pyexn + pystr list),
            count_documents = (\<lambda>(c::pystr) (f::filter_dict). (Inr 0 :: pyexn + int))\<rparr>"
  let ?h'' = "\<lparr>name_attr = (Inl (Exception (u ''closed'')) :: pyexn + pystr option),
            list_collection_names = (Inr [] :: pyexn + pystr list),
            count_documents = (\<lambda>(c::pystr) (f::filter_dict). (Inr 0 :: pyexn + int))\<rparr>"
  let ?env = "\<lambda>k. if k = u ''DATABASE_URL'' then Some (u ''mongodb://localhost'') else None"
  have h1: "name_attr ?h = Inr (Some (u ''appdb'')) \<and> list_collection_names ?h = Inl ?e"
    by simp
  have h2: "name_attr ?h' = Inr None
            \<and> list_collection_names ?h' = Inr [u ''waitlist'', u ''users'']"
    by simp
  have h3: "name_attr ?h'' = Inl (Exception (u ''closed''))"
    by simp
  have t: "take 50 (str_exn ?e) = u ''localhost:27017: [Errno 111] Connection refused, T''"
    by (simp add: u_def)
  have t': "take 50 (str_exn (Exception (u ''closed''))) = u ''closed''"
    by (simp add: u_def)
  have e1: "env_indicator ?env (u ''DATABASE_URL'') = check_mark @ u '' Set''"
    by (simp add: env_indicator_def u_def)
  have e2: "env_indicator ?env (u ''DATABASE_NAME'') = cross_mark @ u '' Not Set''"
    by (simp add: env_indicator_def u_def)
  note all = test_database_never_fails[of "Some ?h" ?env ?h "Some (u ''appdb'')" ?e
      ?h' None "[u ''waitlist'', u ''users'']" ?h'' "Exception (u ''closed'')"]
  from all h1
  have a: "test_database (Some ?h) ?env =
          Return \<lparr>backend = check_mark @ u '' Running'',
                  database = warning_sign @ u ''  Connected but Error: '' @ take 50 (str_exn ?e),
                  database_url = Some (env_indicator ?env (u ''DATABASE_URL'')),
                  database_name = Some (env_indicator ?env (u ''DATABASE_NAME'')),
                  connection_status = u ''Connected'',
                  collections = []\<rparr>"
    by blast
  from all h2
  have b: "test_database (Some ?h') ?env =
          Return \<lparr>backend = check_mark @ u '' Running'',
                  database = check_mark @ u '' Connected & Working'',
                  database_url = Some (env_indicator ?env (u ''DATABASE_URL'')),
                  database_name = Some (env_indicator ?env (u ''DATABASE_NAME'')),
                  connection_status = u ''Connected'',
                  collections = take 10 [u ''waitlist'', u ''users'']\<rparr>"
    by blast
  from all h3
  have c: "test_database (Some ?h'') ?env =
          Return \<lparr>backend = check_mark @ u '' Running'',
                  database = cross_mark @ u '' Error: '' @ take 50 (str_exn (Exception (u ''closed''))),
                  database_url = Some (env_indicator ?env (u ''DATABASE_URL'')),
                  database_name = Some (env_indicator ?env (u ''DATABASE_NAME'')),
                  connection_status = u ''Not Connected'',
                  collections = []\<rparr>"
    by blast
  have a': "warning_sign @ u ''  Connected but Error: ''
              @ u ''localhost:27017: [Errno 111] Connection refused, T''
            = warning_sign
                @ u ''  Connected but Error: localhost:27017: [Errno 111] Connection refused, T''"
    by (simp add: u_def)
  have c': "cross_mark @ u '' Error: '' @ u ''closed'' = cross_mark @ u '' Error: closed''"
    by (simp add: u_def)
  from a b c show ?thesis
    unfolding t t' e1 e2 a' c' by simp
qed

section \<open>Counting the waitlist\<close>

text \<open>
  C6. \<open>GET /waitlist/count\<close> with the handle unset raises HTTP 500 with the detail
  \<open>"Database not available"\<close>, and no count is made; with a handle whose
  \<open>count_documents\<close> on collection \<open>waitlist\<close> with the empty filter gives \<open>n\<close>, it
  returns \<open>{"count": n}\<close>; and when that count throws it raises HTTP 500 with the text of
  the exception as detail.
\<close>

theorem waitlist_count_cases:
  "get_waitlist_count None = RaiseHTTP 500 (u ''Database not available'')
   \<and> http_status (get_waitlist_count None) = 500
   \<and> (count_documents h (u ''waitlist'') [] = Inr n \<longrightarrow>
        get_waitlist_count (Some h) = Return n \<and> http_status (get_waitlist_count (Some h)) = 200)
   \<and> (count_documents h' (u ''waitlist'') [] = Inl e \<longrightarrow>
        get_waitlist_count (Some h') = RaiseHTTP 500 (str_exn e)
        \<and> http_status (get_waitlist_count (Some h')) = 500)"
  by (auto simp: get_waitlist_count_def get_waitlist_count_body_def except_to_500_def)

theorem waitlist_count_cases_witness:
  "get_waitlist_count
     (Some \<lparr>name_attr = Inr None, list_collection_names = Inr [],
            count_documents = (\<lambda>c f. if c = u ''waitlist'' \<and> f = [] then Inr 7 else Inr 0)\<rparr>)
    = Return 7
   \<and> get_waitlist_count
        (Some \<lparr>name_attr = Inr None, list_collection_names = Inr [],
               count_documents = (\<lambda>c f. Inl (Exception (u ''count failed'')))\<rparr>)
       = RaiseHTTP 500 (u ''count failed'')"
proof -
  let ?h = "\<lparr>name_attr = Inr None, list_collection_names = Inr [],
            count_documents = (\<lambda>(c::pystr) (f::filter_dict).
               if c = u ''waitlist'' \<and> f = [] then (Inr 7 :: pyexn + int) else Inr 0)\<rparr>"
  let ?h' = "\<lparr>name_attr = Inr None, list_collection_names = Inr [],
               count_documents = (\<lambda>(c::pystr) (f::filter_dict). (Inl (Exception (u ''count failed'')) :: pyexn + int))\<rparr>"
  have h1: "count_documents ?h (u ''waitlist'') [] = Inr 7" by simp
  have h2: "count_documents ?h' (u ''waitlist'') [] = Inl (Exception (u ''count failed''))" by simp
  from waitlist_count_cases[of ?h 7 ?h' "Exception (u ''count failed'')"] h1 h2
  show ?thesis by simp
qed

section \<open>Creating an entry\<close>




section \<open>Limit and length of the recent listing\<close>



section \<open>Name and creation time in the recent listing\<close>

text \<open>
  C9. In every item of a returned listing, \<open>name\<close> is the value stored under the
  record's key \<open>name\<close>, or \<open>"Friend"\<close> when the key is absent, and \<open>created_at\<close> is the
  value stored under \<open>created_at\<close>, or \<open>None\<close> when the key is absent.
\<close>

theorem recent_name_and_created_at:
  assumes "get_documents (u ''waitlist'') [] limit = Inr docs"
    and "get_recent_waitlist get_documents limit = Return items"
    and "i < length docs"
  shows "item_name (items ! i) =
           (case (docs ! i) (u ''name'') of None \<Rightarrow> PStr (u ''Friend'') | Some v \<Rightarrow> v)
         \<and> item_created_at (items ! i) =
           (case (docs ! i) (u ''created_at'') of None \<Rightarrow> PNone | Some v \<Rightarrow> v)"
proof -
  from recent_item[OF assms] have "sanitize_doc (docs ! i) = Inr (items ! i)" by simp
  from sanitize_doc_fields[OF this] show ?thesis .
qed

theorem recent_name_and_created_at_witness:
  "get_recent_waitlist
     (\<lambda>c f l. Inr [[u ''email'' \<mapsto> PStr (u ''ab@example.com''), u ''name'' \<mapsto> PStr (u ''Al''),
                     u ''created_at'' \<mapsto> PDatetime 1700000000],
                    [u ''email'' \<mapsto> PStr (u ''a@x.com'')]]) 5
   = Return [\<lparr>item_email = u ''a*@example.com'', item_name = PStr (u ''Al''),
              item_created_at = PDatetime 1700000000\<rparr>,
             \<lparr>item_email = u ''a*@x.com'', item_name = PStr (u ''Friend''),
              item_created_at = PNone\<rparr>]
   \<and> item_name (\<lparr>item_email = u ''a*@x.com'', item_name = PStr (u ''Friend''),
              item_created_at = PNone\<rparr>) = PStr (u ''Friend'')
   \<and> item_created_at (\<lparr>item_email = u ''a*@x.com'', item_name = PStr (u ''Friend''),
              item_created_at = PNone\<rparr>) = PNone"
proof -
  let ?docs = "[[u ''email'' \<mapsto> PStr (u ''ab@example.com''), u ''name'' \<mapsto> PStr (u ''Al''),
                     u ''created_at'' \<mapsto> PDatetime 1700000000],
                    [u ''email'' \<mapsto> PStr (u ''a@x.com'')]] :: doc list"
  let ?gd = "\<lambda>(c::pystr) (f::filter_dict) (l::int). (Inr ?docs :: pyexn + doc list)"
  let ?items = "[\<lparr>item_email = u ''a*@example.com'', item_name = PStr (u ''Al''),
              item_created_at = PDatetime 1700000000\<rparr>,
             \<lparr>item_email = u ''a*@x.com'', item_name = PStr (u ''Friend''),
              item_created_at = PNone\<rparr>]"
  have h1: "?gd (u ''waitlist'') [] 5 = Inr ?docs" by simp
  have h2: "get_recent_waitlist ?gd 5 = Return ?items"
    by (simp add: recent_defs)
  have h3: "(1::nat) < length ?docs" by simp
  from recent_name_and_created_at[OF h1 h2 h3] h2
  show ?thesis by simp
qed

section \<open>The masking is partial\<close>

text \<open>
  C10. For an email that begins with \<open>"@"\<close> the masking raises \<open>IndexError\<close> at
  \<open>name[0]\<close>; when the adapter returns documents and one of them has such an email,
  \<open>GET /waitlist/recent\<close> raises HTTP 500 for the whole request.
\<close>

theorem recent_fails_on_empty_local_part:
  assumes "get_documents (u ''waitlist'') [] limit = Inr docs"
    and "d \<in> set docs"
    and "d (u ''email'') = Some (PStr (at_sign # domain))"
  shows "mask_email (PStr (at_sign # domain)) = Inl (IndexError (u ''string index out of range''))
         \<and> (\<exists>detail. get_recent_waitlist get_documents limit = RaiseHTTP 500 detail)
         \<and> http_status (get_recent_waitlist get_documents limit) = 500"
proof -
  have "sanitize_doc d = Inl (IndexError (u ''string index out of range''))"
    using assms(3) by (simp add: sanitize_doc_def dict_get_def mask_empty_local)
  from sanitized_fails[OF assms(2) this] obtain e where "sanitized docs = Inl e" ..
  with assms(1) have "get_recent_waitlist get_documents limit = RaiseHTTP 500 (str_exn e)"
    by (simp add: get_recent_waitlist_def get_recent_waitlist_body_def except_to_500_def)
  then show ?thesis by (simp add: mask_empty_local)
qed

theorem recent_fails_on_empty_local_part_witness:
  "get_recent_waitlist
     (\<lambda>c f l. Inr [[u ''email'' \<mapsto> PStr (u ''bob@example.com'')],
                    [u ''email'' \<mapsto> PStr (u ''@example.com'')]]) 5
   = RaiseHTTP 500 (u ''string index out of range'')
   \<and> http_status (get_recent_waitlist
     (\<lambda>c f l. Inr [[u ''email'' \<mapsto> PStr (u ''bob@example.com'')],
                    [u ''email'' \<mapsto> PStr (u ''@example.com'')]]) 5) = 500"
proof -
  let ?docs = "[[u ''email'' \<mapsto> PStr (u ''bob@example.com'')],
                    [u ''email'' \<mapsto> PStr (u ''@example.com'')]] :: doc list"
  let ?gd = "\<lambda>(c::pystr) (f::filter_dict) (l::int). (Inr ?docs :: pyexn + doc list)"
  have h1: "?gd (u ''waitlist'') [] 5 = Inr ?docs" by simp
  have h2: "[u ''email'' \<mapsto> PStr (u ''@example.com'')] \<in> set ?docs" by simp
  have h3: "[u ''email'' \<mapsto> PStr (u ''@example.com'')] (u ''email'')
              = Some (PStr (at_sign # u ''example.com''))"
    by (simp add: u_def at_sign_def)
  have h4: "get_recent_waitlist ?gd 5 = RaiseHTTP 500 (u ''string index out of range'')"
    by (simp add: recent_defs)
  from recent_fails_on_empty_local_part[OF h1 h2 h3] h4
  show ?thesis by simp
qed

end
